theory Spec2Isabelle
  imports Main
begin

section \<open>Python values and the builtins the notebook calls\<close>

text \<open>
  The notebook \<^verbatim>\<open>07_Agents/00_LLM_Claude_Agent_Tools.ipynb\<close> defines five mock tools and
  one table of customer records. Its values are Python objects: \<^verbatim>\<open>None\<close>, booleans,
  unbounded integers, strings, lists, and dictionaries with string keys. A dictionary is an
  association list in insertion order, as Python keeps it; its keys are distinct and a lookup
  takes the first binding. Floats are outside this universe. A \<^typ>\<open>char\<close> stands for one code
  point below 256.
\<close>

datatype pyval =
    PNone
  | PBool bool
  | PInt int
  | PStr string
  | PList "pyval list"
  | PDict "(string \<times> pyval) list"

datatype py_error =
    TypeError
  | ValueError
  | KeyError string
  | AttributeError
  | JSONDecodeError

type_synonym 'a result = "py_error + 'a"

subsection \<open>\<^verbatim>\<open>str\<close> and \<^verbatim>\<open>repr\<close>\<close>

fun nat_digits :: "nat \<Rightarrow> string" where
  "nat_digits n =
     (if n < 10 then [''0123456789'' ! n]
      else nat_digits (n div 10) @ [''0123456789'' ! (n mod 10)])"

definition int_str :: "int \<Rightarrow> string" where
  "int_str i = (if i < 0 then CHR ''-'' # nat_digits (nat (- i)) else nat_digits (nat i))"

definition hex2 :: "nat \<Rightarrow> string" where
  "hex2 n = [''0123456789abcdef'' ! (n div 16 mod 16), ''0123456789abcdef'' ! (n mod 16)]"

text \<open>
  \<^verbatim>\<open>repr\<close> of a string quotes it with \<^verbatim>\<open>'\<close>, or with \<^verbatim>\<open>"\<close> when the string holds a
  \<^verbatim>\<open>'\<close> and no \<^verbatim>\<open>"\<close>; it escapes the backslash, the quote in use, tab, newline, carriage
  return, and writes every other non-printable code point as \<^verbatim>\<open>\xNN\<close>.
\<close>

definition quote_of :: "string \<Rightarrow> char" where
  "quote_of s = (if CHR 0x27 \<in> set s \<and> CHR 0x22 \<notin> set s then CHR 0x22 else CHR 0x27)"

definition printable :: "char \<Rightarrow> bool" where
  "printable c =
     (let n = (of_char c :: nat) in \<not> (n < 32 \<or> (127 \<le> n \<and> n \<le> 160) \<or> n = 173))"

definition repr_char :: "char \<Rightarrow> char \<Rightarrow> string" where
  "repr_char q c =
     (if c = CHR 0x5C then [CHR 0x5C, CHR 0x5C]
      else if c = q then [CHR 0x5C, q]
      else if c = CHR 0x09 then [CHR 0x5C, CHR ''t'']
      else if c = CHR 0x0A then [CHR 0x5C, CHR ''n'']
      else if c = CHR 0x0D then [CHR 0x5C, CHR ''r'']
      else if printable c then [c]
      else [CHR 0x5C, CHR ''x''] @ hex2 (of_char c))"

definition str_repr :: "string \<Rightarrow> string" where
  "str_repr s = (let q = quote_of s in [q] @ concat (map (repr_char q) s) @ [q])"

fun join :: "string \<Rightarrow> string list \<Rightarrow> string" where
  "join sep [] = []"
| "join sep [x] = x"
| "join sep (x # y # ys) = x @ sep @ join sep (y # ys)"

primrec py_repr :: "pyval \<Rightarrow> string" where
  "py_repr PNone = ''None''"
| "py_repr (PBool b) = (if b then ''True'' else ''False'')"
| "py_repr (PInt i) = int_str i"
| "py_repr (PStr s) = str_repr s"
| "py_repr (PList xs) = ''['' @ join '', '' (map py_repr xs) @ '']''"
| "py_repr (PDict kvs) =
     ''{'' @ join '', '' (map (\<lambda>kv. str_repr (fst kv) @ '': '' @ snd kv)
                          (map (map_prod id py_repr) kvs)) @ ''}''"

text \<open>What an f-string writes for \<^verbatim>\<open>{v}\<close>: \<^verbatim>\<open>str(v)\<close>, the string itself or the \<^verbatim>\<open>repr\<close>.\<close>

definition py_str :: "pyval \<Rightarrow> string" where
  "py_str v = (case v of PStr s \<Rightarrow> s | _ \<Rightarrow> py_repr v)"

text \<open>
  The interpreter refuses to write an integer of more than 4300 decimal digits (its default
  limit, which the notebook does not change): \<^verbatim>\<open>str\<close>, \<^verbatim>\<open>repr\<close> and an f-string raise a
  \<^verbatim>\<open>ValueError\<close> for such an integer, also when it stands inside a list or a dictionary.
  \<open>renderable\<close> says that a value holds no such integer, and \<open>py_format\<close> is what an f-string
  does with \<^verbatim>\<open>{v}\<close>: it writes \<open>py_str v\<close> or raises.
\<close>

definition max_str_digits :: nat where
  "max_str_digits = 4300"

primrec renderable :: "pyval \<Rightarrow> bool" where
  "renderable PNone = True"
| "renderable (PBool b) = True"
| "renderable (PInt i) = (length (nat_digits (nat \<bar>i\<bar>)) \<le> max_str_digits)"
| "renderable (PStr s) = True"
| "renderable (PList xs) = list_all (\<lambda>b. b) (map renderable xs)"
| "renderable (PDict kvs) = list_all (\<lambda>b. b) (map snd (map (map_prod id renderable) kvs))"

definition py_format :: "pyval \<Rightarrow> string result" where
  "py_format v = (if renderable v then Inr (py_str v) else Inl ValueError)"

subsection \<open>\<^verbatim>\<open>int\<close>\<close>

text \<open>
  \<^verbatim>\<open>int(v)\<close> of an integer is the integer, of a boolean 0 or 1. Of a string it strips
  white space at both ends, reads an optional sign and then decimal digits, where single
  underscores may stand between digits; anything else is a \<^verbatim>\<open>ValueError\<close>, and so is a
  string of more than 4300 digits, leading zeros counted and underscores not. Other objects
  give a \<^verbatim>\<open>TypeError\<close>. The white space that \<^verbatim>\<open>int\<close> strips is, below 256, the code points
  9 to 13, 32, 0x85 and 0xA0; the separators 0x1C to 0x1F are not stripped.
\<close>

definition is_space :: "char \<Rightarrow> bool" where
  "is_space c =
     (let n = (of_char c :: nat)
      in (9 \<le> n \<and> n \<le> 13) \<or> n = 32 \<or> n = 133 \<or> n = 160)"

definition is_digit :: "char \<Rightarrow> bool" where
  "is_digit c = (let n = (of_char c :: nat) in 48 \<le> n \<and> n \<le> 57)"

definition strip :: "string \<Rightarrow> string" where
  "strip s = rev (dropWhile is_space (rev (dropWhile is_space s)))"

fun digits_ok :: "string \<Rightarrow> bool" where
  "digits_ok [] = False"
| "digits_ok [c] = is_digit c"
| "digits_ok (c # d # cs) =
     (is_digit c \<and> (if d = CHR ''_'' then digits_ok cs else digits_ok (d # cs)))"

definition digits_value :: "string \<Rightarrow> nat" where
  "digits_value ds =
     foldl (\<lambda>a c. 10 * a + (of_char c - 48)) 0 (filter (\<lambda>c. c \<noteq> CHR ''_'') ds)"

definition int_of_str :: "string \<Rightarrow> int result" where
  "int_of_str s =
     (let t = strip s;
          signed = (t \<noteq> [] \<and> (hd t = CHR ''-'' \<or> hd t = CHR ''+''));
          body = (if signed then tl t else t)
      in if digits_ok body \<and> length (filter (\<lambda>c. c \<noteq> CHR ''_'') body) \<le> max_str_digits
         then Inr (if signed \<and> hd t = CHR ''-'' then - int (digits_value body)
                   else int (digits_value body))
         else Inl ValueError)"

definition py_int :: "pyval \<Rightarrow> int result" where
  "py_int v =
     (case v of
        PInt i \<Rightarrow> Inr i
      | PBool b \<Rightarrow> Inr (if b then 1 else 0)
      | PStr s \<Rightarrow> int_of_str s
      | _ \<Rightarrow> Inl TypeError)"

text \<open>A character that \<^verbatim>\<open>int\<close> reads as a decimal digit: not a space, a sign or an underscore.\<close>

definition plain_digit :: "char \<Rightarrow> bool" where
  "plain_digit c = (is_digit c \<and> c \<noteq> CHR ''_'' \<and> \<not> is_space c \<and> c \<noteq> CHR ''-'' \<and> c \<noteq> CHR ''+'')"

subsection \<open>Subscription, comparison, slicing, splitting\<close>

text \<open>\<^verbatim>\<open>v[k]\<close> with a string key \<^verbatim>\<open>k\<close>: only a dictionary answers, with a \<^verbatim>\<open>KeyError\<close> for
  a key it does not hold.\<close>

definition py_getitem :: "pyval \<Rightarrow> string \<Rightarrow> pyval result" where
  "py_getitem v k =
     (case v of
        PDict kvs \<Rightarrow> (case map_of kvs k of None \<Rightarrow> Inl (KeyError k) | Some w \<Rightarrow> Inr w)
      | _ \<Rightarrow> Inl TypeError)"

text \<open>\<^verbatim>\<open>v == n\<close> for an integer \<^verbatim>\<open>n\<close>: true for the same integer, and for the boolean that
  counts as it.\<close>

definition py_eq_int :: "pyval \<Rightarrow> int \<Rightarrow> bool" where
  "py_eq_int v n =
     (case v of
        PInt m \<Rightarrow> m = n
      | PBool b \<Rightarrow> (if b then 1 else 0) = n
      | _ \<Rightarrow> False)"

text \<open>\<^verbatim>\<open>x[1:-1]\<close>: the sequence without its first and last element, empty when it has fewer
  than two.\<close>

definition slice_1_m1 :: "pyval \<Rightarrow> pyval result" where
  "slice_1_m1 x =
     (case x of
        PStr s \<Rightarrow> Inr (PStr (butlast (tl s)))
      | PList xs \<Rightarrow> Inr (PList (butlast (tl xs)))
      | _ \<Rightarrow> Inl TypeError)"

text \<open>\<^verbatim>\<open>s.split(sep)\<close> for a one-character separator.\<close>

fun split :: "char \<Rightarrow> string \<Rightarrow> string list" where
  "split sep [] = [[]]"
| "split sep (c # cs) =
     (if c = sep then [] # split sep cs
      else (c # hd (split sep cs)) # tl (split sep cs))"

section \<open>The session: the table variable and the cell output\<close>

text \<open>
  The notebook's functions read the global \<^verbatim>\<open>customer_table\<close> and write lines with
  \<^verbatim>\<open>print\<close>. A session holds both; every function takes the session and returns its result
  together with the session it leaves. A raised exception is the result \<open>Inl\<close>: nothing in the
  notebook catches one, so a function that meets an error returns it at once.
\<close>

record session =
  customer_table_var :: "pyval list"
  stdout :: "string list"

type_synonym tool_func = "pyval \<Rightarrow> session \<Rightarrow> pyval result \<times> session"

definition print :: "string \<Rightarrow> session \<Rightarrow> session" where
  "print line s = s\<lparr>stdout := stdout s @ [line]\<rparr>"

section \<open>The custom tools\<close>

text \<open>
  \<^verbatim>\<open>
  func=lambda x: f"['i-00000000000','i-00000000001','i-00000000002']"
  func=lambda x: f"{len(x.split(','))} instances patched"
  func=lambda x: f"{len(x.split(','))} instances stopped"
  \<close>
  Only a string has \<^verbatim>\<open>split\<close>; on another object the attribute lookup fails.
\<close>

definition EC2Search :: "pyval \<Rightarrow> pyval result" where
  "EC2Search x =
     Inr (PStr ''['i-00000000000','i-00000000001','i-00000000002']'')"

definition EC2Patch :: "pyval \<Rightarrow> pyval result" where
  "EC2Patch x =
     (case x of
        PStr s \<Rightarrow> Inr (PStr (py_str (PInt (int (length (split CHR '','' s)))) @ '' instances patched''))
      | _ \<Rightarrow> Inl AttributeError)"

definition EC2Stop :: "pyval \<Rightarrow> pyval result" where
  "EC2Stop x =
     (case x of
        PStr s \<Rightarrow> Inr (PStr (py_str (PInt (int (length (split CHR '','' s)))) @ '' instances stopped''))
      | _ \<Rightarrow> Inl AttributeError)"

text \<open>
  \<^verbatim>\<open>
  def record_change(x):
      print(f"*{x}*")
      j = json.loads(x[1:-1])
      return f"instance {j['instance']}. ACTION: {j['changeType']} recorded in CMDB"
  \<close>
  \<^verbatim>\<open>json.loads\<close> is the standard library's decoder, not code of the notebook: it is the
  parameter \<open>loads\<close>, from a string to the decoded value or the error it raises. Given
  anything but a string, \<^verbatim>\<open>json.loads\<close> raises a \<^verbatim>\<open>TypeError\<close> before decoding. The
  decoder reads integers with \<^verbatim>\<open>int\<close>, so the integers of a decoded value are within the
  digit limit and the f-string of the \<^verbatim>\<open>return\<close> writes them with \<open>py_str\<close>; the input \<open>x\<close>
  of the \<^verbatim>\<open>print\<close> is any value, written with \<open>py_format\<close>.
\<close>

definition json_loads :: "(string \<Rightarrow> pyval result) \<Rightarrow> pyval \<Rightarrow> pyval result" where
  "json_loads loads y = (case y of PStr t \<Rightarrow> loads t | _ \<Rightarrow> Inl TypeError)"

definition record_change :: "(string \<Rightarrow> pyval result) \<Rightarrow> tool_func" where
  "record_change loads x s =
     (case py_format x of
        Inl e \<Rightarrow> (Inl e, s)
      | Inr line \<Rightarrow>
      let s1 = print (''*'' @ line @ ''*'') s in
      case slice_1_m1 x of
        Inl e \<Rightarrow> (Inl e, s1)
      | Inr y \<Rightarrow>
     (case json_loads loads y of
        Inl e \<Rightarrow> (Inl e, s1)
      | Inr j \<Rightarrow>
     (case py_getitem j ''instance'' of
        Inl e \<Rightarrow> (Inl e, s1)
      | Inr vi \<Rightarrow>
     (case py_getitem j ''changeType'' of
        Inl e \<Rightarrow> (Inl e, s1)
      | Inr vc \<Rightarrow>
          (Inr (PStr (''instance '' @ py_str vi @ ''. ACTION: '' @ py_str vc
                      @ '' recorded in CMDB'')), s1)))))"

subsection \<open>The customer table and its lookup\<close>

text \<open>
  The ten records of \<^verbatim>\<open>customer_table\<close>, in the order of the source. Nine of them have the
  same five keys in the same order and are written with \<open>customer\<close>; the record with id 8 has
  the key \<^verbatim>\<open>orders\<close> before \<^verbatim>\<open>postal_code\<close>.
\<close>

definition customer :: "int \<Rightarrow> string \<Rightarrow> string \<Rightarrow> int \<Rightarrow> string \<Rightarrow> pyval" where
  "customer i fn ln a pc =
     PDict [(''id'', PInt i), (''first_name'', PStr fn), (''last_name'', PStr ln),
            (''age'', PInt a), (''postal_code'', PStr pc)]"

definition michelle :: pyval where
  "michelle =
     PDict [(''id'', PInt 8), (''first_name'', PStr ''Michelle''), (''last_name'', PStr ''Chen''),
            (''age'', PInt 22),
            (''orders'',
               PList [PDict [(''order_id'', PInt 1),
                             (''description'', PStr ''An order of 1 dozen pencils'')],
                      PDict [(''order_id'', PInt 2),
                             (''description'', PStr ''An order of 2 markers'')]]),
            (''postal_code'', PStr ''33215'')]"

definition customer_table :: "pyval list" where
  "customer_table =
     [customer 1 ''John'' ''Doe'' 35 ''90210'',
      customer 2 ''Jane'' ''Smith'' 27 ''12345'',
      customer 3 ''Bob'' ''Jones'' 42 ''55555'',
      customer 4 ''Sara'' ''Miller'' 29 ''13579'',
      customer 5 ''Mark'' ''Davis'' 31 ''02468'',
      customer 6 ''Laura'' ''Wilson'' 24 ''98765'',
      customer 7 ''Steve'' ''Moore'' 36 ''11223'',
      michelle,
      customer 9 ''David'' ''Lee'' 29 ''99567'',
      customer 10 ''Jessica'' ''Brown'' 18 ''43210'']"

text \<open>
  \<^verbatim>\<open>
  def customer_lookup(id):
      print(f"search by customer {id}")
      for customer in customer_table:
          if customer["id"] == int(id):
              print(f"found customer {id} {customer}")
              return customer
      return None
  \<close>
  The loop evaluates \<^verbatim>\<open>customer["id"]\<close> and then \<^verbatim>\<open>int(id)\<close> afresh for each record it
  visits, so either can raise only when there is a record to visit. Each \<^verbatim>\<open>print\<close> first
  builds its f-string, which raises when \<^verbatim>\<open>id\<close> or the record cannot be written.
\<close>

fun lookup_loop :: "pyval \<Rightarrow> pyval list \<Rightarrow> session \<Rightarrow> pyval result \<times> session" where
  "lookup_loop ident [] s = (Inr PNone, s)"
| "lookup_loop ident (c # rest) s =
     (case py_getitem c ''id'' of
        Inl e \<Rightarrow> (Inl e, s)
      | Inr v \<Rightarrow>
     (case py_int ident of
        Inl e \<Rightarrow> (Inl e, s)
      | Inr n \<Rightarrow>
          if py_eq_int v n
          then (case py_format ident of
                  Inl e \<Rightarrow> (Inl e, s)
                | Inr a \<Rightarrow>
               (case py_format c of
                  Inl e \<Rightarrow> (Inl e, s)
                | Inr b \<Rightarrow> (Inr c, print (''found customer '' @ a @ '' '' @ b) s)))
          else lookup_loop ident rest s))"

definition customer_lookup :: tool_func where
  "customer_lookup ident s =
     (case py_format ident of
        Inl e \<Rightarrow> (Inl e, s)
      | Inr a \<Rightarrow>
          let s1 = print (''search by customer '' @ a) s
          in lookup_loop ident (customer_table_var s1) s1)"

subsection \<open>The tool descriptors\<close>

text \<open>
  \<^verbatim>\<open>Tool.from_function(name=..., func=..., description=...)\<close>: the five descriptors the
  notebook appends to its tool list, in order. The lambdas neither read nor write the
  session.
\<close>

record tool =
  name :: string
  func :: tool_func
  description :: string

definition pure_tool :: "(pyval \<Rightarrow> pyval result) \<Rightarrow> tool_func" where
  "pure_tool f x s = (f x, s)"

definition custom_tools :: "(string \<Rightarrow> pyval result) \<Rightarrow> tool list" where
  "custom_tools loads =
     [\<lparr>name = ''EC2Search'', func = pure_tool EC2Search,
       description = ''Use this when you need to list EC2 instances in json. It takes a single parameter named tagname''\<rparr>,
      \<lparr>name = ''EC2Patch'', func = pure_tool EC2Patch,
       description = ''Use this when you need to patch EC2 instances''\<rparr>,
      \<lparr>name = ''EC2Stop'', func = pure_tool EC2Stop,
       description = ''Use this when you need to stop EC2 instances''\<rparr>,
      \<lparr>name = ''ChangeRecord'', func = record_change loads,
       description = ''Use this when you need to update a change record in CMDB. This takes in a json document as the parameter. The element named 'instance' contains the instance and the element named 'changeType' is the change type.''\<rparr>,
      \<lparr>name = ''CustomerLookup'', func = customer_lookup,
       description = ''Use this when you need to lookup a customer by id.''\<rparr>]"

text \<open>A session that differs from another only by lines added to the output.\<close>

definition extends_output :: "session \<Rightarrow> session \<Rightarrow> bool" where
  "extends_output s s' = (\<exists>out. s' = s\<lparr>stdout := stdout s @ out\<rparr>)"

text \<open>The session in which the table has just been built and nothing has been printed.\<close>

definition session0 :: session where
  "session0 = \<lparr>customer_table_var = customer_table, stdout = []\<rparr>"

text \<open>\<^verbatim>\<open>k in v\<close> for a string key: true only of a dictionary that holds the key.\<close>

definition has_key :: "pyval \<Rightarrow> string \<Rightarrow> bool" where
  "has_key v k = (case v of PDict kvs \<Rightarrow> k \<in> set (map fst kvs) | _ \<Rightarrow> False)"

section \<open>The cells of the notebook\<close>

text \<open>
  The notebook is a straight-line script. Its statements that build a model client, build or
  change the tool list, construct an agent, set the prompt, run an agent and print the result
  are transcribed in order, one list per code cell; a tool is its name paired with the name
  of its function. Imports, the environment set-up, the search wrapper, the math chain and
  the cell that generates and executes the tool code are left out. Running a statement that
  reads an unbound variable is a \<^verbatim>\<open>NameError\<close>, the value \<open>None\<close>.
\<close>

datatype stmt =
    Bedrock string string
  | LoadTools "string list"
  | ToolsAppend string string
  | ToolsAssign "(string \<times> string) list"
  | SetFunc string string
  | InitializeAgent
  | LoadChatPlanner
  | LoadAgentExecutor
  | PlanAndExecute
  | Question string
  | ReactRun bool
  | PaeRun string
  | PrintResult

record run =
  used_tools :: "(string \<times> string) list"
  prompt :: string

record kernel =
  clients :: "string list"
  tools :: "(string \<times> string) list option"
  question :: "string option"
  react_agent :: "(string \<times> string) list option"
  planner :: bool
  executor :: "(string \<times> string) list option"
  pae_agent :: "(string \<times> string) list option"
  result_bound :: bool
  runs :: "run list"

definition kernel0 :: kernel where
  "kernel0 = \<lparr>clients = [], tools = None, question = None, react_agent = None,
              planner = False, executor = None, pae_agent = None, result_bound = False,
              runs = []\<rparr>"

fun exec :: "stmt \<Rightarrow> kernel \<Rightarrow> kernel option" where
  "exec (Bedrock var model_id) k = Some (k\<lparr>clients := var # clients k\<rparr>)"
| "exec (LoadTools names) k =
     (if ''llm'' \<in> set (clients k)
      then Some (k\<lparr>tools := Some (map (\<lambda>n. (n, ''load_tools'')) names)\<rparr>) else None)"
| "exec (ToolsAppend n f) k =
     (case tools k of None \<Rightarrow> None | Some ts \<Rightarrow> Some (k\<lparr>tools := Some (ts @ [(n, f)])\<rparr>))"
| "exec (ToolsAssign ts) k = Some (k\<lparr>tools := Some ts\<rparr>)"
| "exec (SetFunc n f) k =
     (case tools k of None \<Rightarrow> None
      | Some ts \<Rightarrow> Some (k\<lparr>tools := Some (map (\<lambda>t. if fst t = n then (fst t, f) else t) ts)\<rparr>))"
| "exec InitializeAgent k =
     (case tools k of None \<Rightarrow> None
      | Some ts \<Rightarrow> if ''llm'' \<in> set (clients k) then Some (k\<lparr>react_agent := Some ts\<rparr>) else None)"
| "exec LoadChatPlanner k =
     (if ''plan_llm'' \<in> set (clients k) then Some (k\<lparr>planner := True\<rparr>) else None)"
| "exec LoadAgentExecutor k =
     (case tools k of None \<Rightarrow> None
      | Some ts \<Rightarrow>
          if ''execute_llm'' \<in> set (clients k) then Some (k\<lparr>executor := Some ts\<rparr>) else None)"
| "exec PlanAndExecute k =
     (case executor k of None \<Rightarrow> None
      | Some ts \<Rightarrow> if planner k then Some (k\<lparr>pae_agent := Some ts\<rparr>) else None)"
| "exec (Question q) k = Some (k\<lparr>question := Some q\<rparr>)"
| "exec (ReactRun assigned) k =
     (case react_agent k of None \<Rightarrow> None
      | Some ts \<Rightarrow>
     (case question k of None \<Rightarrow> None
      | Some q \<Rightarrow>
          Some (k\<lparr>result_bound := (result_bound k \<or> assigned),
                  runs := runs k @ [\<lparr>used_tools = ts, prompt = q\<rparr>]\<rparr>)))"
| "exec (PaeRun q) k =
     (case pae_agent k of None \<Rightarrow> None
      | Some ts \<Rightarrow> Some (k\<lparr>runs := runs k @ [\<lparr>used_tools = ts, prompt = q\<rparr>]\<rparr>))"
| "exec PrintResult k = (if result_bound k then Some k else None)"

definition question_sagemaker :: string where
  "question_sagemaker = ''Human: Only answer the question asked. <question> What is Amazon SageMaker? What is its launch year multiplied by 2? </question> Assistant: Launch year multiplied by 2:''"

definition question_tag :: "string \<Rightarrow> string" where
  "question_tag tag = ''Human: Please list my EC2 instances with the a tag '' @ tag @ ''. '' @ [CHR 0x0A] @ ''Next, patch each of the instances and record the patch change record in the CMDB with a change type of 'PATCH'. '' @ [CHR 0x0A] @ ''Finally, for each of the instances stop the instance and tell me how many were stopped. Assistant:''"

definition question_customer :: string where
  "question_customer = ''Human: write one sentence summary about the information you know about the customer with an id of 8.'' @ [CHR 0x0A, CHR 0x0A] @ ''Assistant:''"

definition question_pae :: string where
  "question_pae = ''What is Amazon SageMaker? What is its launch year multiplied by 2? Launch year multiplied by 2 is''"

definition notebook :: "stmt list list" where
  "notebook =
     [[Bedrock ''llm'' ''anthropic.claude-instant-v1'', LoadTools [''serpapi'', ''llm-math''],
       InitializeAgent, Question question_sagemaker],
      [ReactRun False],
      [LoadTools [''serpapi'', ''llm-math''],
       ToolsAppend ''EC2Search'' ''lambda'', ToolsAppend ''EC2Patch'' ''lambda'',
       ToolsAppend ''EC2Stop'' ''lambda'', ToolsAppend ''ChangeRecord'' ''record_change''],
      [Bedrock ''llm'' ''anthropic.claude-instant-v1'', InitializeAgent,
       Question (question_tag ''delete''), ReactRun True, PrintResult],
      [SetFunc ''EC2Search'' ''list_tagged_instances'',
       Bedrock ''llm'' ''anthropic.claude-instant-v1'', InitializeAgent,
       Question (question_tag ''delete''), ReactRun True, PrintResult],
      [Question (question_tag ''doesnotexist''), ReactRun True, PrintResult],
      [ToolsAppend ''CustomerLookup'' ''customer_lookup''],
      [InitializeAgent, Question question_customer, ReactRun True, PrintResult],
      [Bedrock ''plan_llm'' ''anthropic.claude-v1'',
       Bedrock ''execute_llm'' ''anthropic.claude-instant-v1''],
      [ToolsAssign [(''Search'', ''search.run''), (''Calculator'', ''llm_math_chain.run'')]],
      [LoadChatPlanner, LoadAgentExecutor, PlanAndExecute],
      [PaeRun question_pae]]"

definition run_all :: "stmt list \<Rightarrow> kernel \<Rightarrow> kernel option" where
  "run_all sts k = foldl (\<lambda>ko st. Option.bind ko (exec st)) (Some k) sts"

definition notebook_runs :: "run list" where
  "notebook_runs = (case run_all (concat notebook) kernel0 of None \<Rightarrow> [] | Some k \<Rightarrow> runs k)"

definition is_constructor :: "stmt \<Rightarrow> bool" where
  "is_constructor st = (st = InitializeAgent \<or> st = PlanAndExecute)"

definition is_client :: "stmt \<Rightarrow> bool" where
  "is_client st = (case st of Bedrock _ _ \<Rightarrow> True | _ \<Rightarrow> False)"

definition is_tools_assign :: "stmt \<Rightarrow> bool" where
  "is_tools_assign st = (case st of LoadTools _ \<Rightarrow> True | ToolsAssign _ \<Rightarrow> True | _ \<Rightarrow> False)"

definition is_run :: "stmt \<Rightarrow> bool" where
  "is_run st = (case st of ReactRun _ \<Rightarrow> True | PaeRun _ \<Rightarrow> True | _ \<Rightarrow> False)"

section \<open>Example inputs\<close>

text \<open>The least integer that has more digits than the interpreter writes.\<close>

definition huge_id :: int where
  "huge_id = 10 ^ max_str_digits"


text \<open>
  Three documents and the values \<^verbatim>\<open>json.loads\<close> gives for them: an instance of the decoder
  parameter that decodes these documents and rejects every other string. It stands for
  \<^verbatim>\<open>json.loads\<close> at these documents and at strings that are not JSON, and is used only where
  a concrete decoder is needed; the properties of \<open>record_change\<close> hold for every decoder.
\<close>

definition change_doc :: "string \<Rightarrow> string" where
  \<open>change_doc ct = ''{"instance": "i-00000000000", "changeType": "'' @ ct @ ''"}''\<close>

definition instance_doc :: string where
  \<open>instance_doc = ''{"instance": "i-00000000000"}''\<close>

definition decode_examples :: "string \<Rightarrow> pyval result" where
  "decode_examples d =
     (if d = change_doc ''PATCH''
      then Inr (PDict [(''instance'', PStr ''i-00000000000''), (''changeType'', PStr ''PATCH'')])
      else if d = change_doc ''STOP''
      then Inr (PDict [(''instance'', PStr ''i-00000000000''), (''changeType'', PStr ''STOP'')])
      else if d = instance_doc
      then Inr (PDict [(''instance'', PStr ''i-00000000000'')])
      else Inl JSONDecodeError)"

text \<open>A document as a tool receives it, wrapped in one quote character on each side.\<close>

definition quoted :: "string \<Rightarrow> pyval" where
  "quoted d = PStr ([CHR 0x27] @ d @ [CHR 0x27])"

section \<open>Properties\<close>

declare nat_digits.simps [simp del]

lemma split_nonempty: "split sep xs \<noteq> []"
  by (cases xs) simp_all

lemma length_split: "length (split sep xs) = Suc (count_list xs sep)"
  by (induction xs) (simp_all add: split_nonempty)

lemma join_split: "join [sep] (split sep xs) = xs"
proof (induction xs)
  case Nil
  then show ?case by simp
next
  case (Cons c cs)
  obtain w ws where sp: "split sep cs = w # ws"
    using split_nonempty [of sep cs] by (cases "split sep cs") auto
  show ?case
  proof (cases "c = sep")
    case True
    with Cons sp show ?thesis by simp
  next
    case False
    with Cons sp show ?thesis by (cases ws) simp_all
  qed
qed

lemma split_no_sep: "seg \<in> set (split sep xs) \<Longrightarrow> sep \<notin> set seg"
proof (induction xs arbitrary: seg)
  case Nil
  then show ?case by simp
next
  case (Cons c cs)
  obtain w ws where sp: "split sep cs = w # ws"
    using split_nonempty [of sep cs] by (cases "split sep cs") auto
  from Cons sp show ?case by (auto split: if_splits)
qed

lemma nat_digits_nonempty: "nat_digits n \<noteq> []"
  by (subst nat_digits.simps) simp

lemma digit_zero: "n < 10 \<Longrightarrow> (''0123456789'' ! n = CHR ''0'') = (n = 0)"
proof -
  assume "n < 10"
  then consider "n = 0" | "n = 1" | "n = 2" | "n = 3" | "n = 4" | "n = 5" | "n = 6"
    | "n = 7" | "n = 8" | "n = 9" by atomize_elim arith
  then show ?thesis by cases simp_all
qed

lemma nat_digits_zero: "(nat_digits n = ''0'') = (n = 0)"
proof (cases "n < 10")
  case True
  then show ?thesis using digit_zero [of n] by (subst nat_digits.simps) simp
next
  case False
  then have "nat_digits n = nat_digits (n div 10) @ [''0123456789'' ! (n mod 10)]"
    by (subst nat_digits.simps) simp
  moreover have "length (nat_digits (n div 10)) \<ge> 1"
    using nat_digits_nonempty [of "n div 10"] by (cases "nat_digits (n div 10)") auto
  ultimately have "length (nat_digits n) \<ge> 2" by simp
  with False show ?thesis by auto
qed

lemma py_str_len: "py_str (PInt (int n)) = nat_digits n"
  by (simp add: py_str_def int_str_def)

text \<open>
  C9. For every string \<open>x\<close>, \<^verbatim>\<open>EC2Patch\<close> returns \<^verbatim>\<open>"{n} instances patched"\<close> and
  \<^verbatim>\<open>EC2Stop\<close> returns \<^verbatim>\<open>"{n} instances stopped"\<close>, where \<open>n\<close> is the number of segments
  that splitting \<open>x\<close> on commas gives: the segments hold no comma, joined by commas they
  give \<open>x\<close> back, and there is one more of them than there are commas. So \<open>n\<close> is at least
  1, the count written is never 0, and the empty string gives a count of 1.
\<close>

theorem EC2Patch_EC2Stop_count:
  "EC2Patch (PStr x) = Inr (PStr (nat_digits (length (split CHR '','' x)) @ '' instances patched''))
   \<and> EC2Stop (PStr x) = Inr (PStr (nat_digits (length (split CHR '','' x)) @ '' instances stopped''))
   \<and> join '','' (split CHR '','' x) = x
   \<and> (\<forall>seg \<in> set (split CHR '','' x). CHR '','' \<notin> set seg)
   \<and> length (split CHR '','' x) = Suc (count_list x CHR '','')
   \<and> 1 \<le> length (split CHR '','' x)
   \<and> EC2Patch (PStr x) \<noteq> Inr (PStr ''0 instances patched'')
   \<and> EC2Stop (PStr x) \<noteq> Inr (PStr ''0 instances stopped'')
   \<and> EC2Patch (PStr []) = Inr (PStr ''1 instances patched'')
   \<and> EC2Stop (PStr []) = Inr (PStr ''1 instances stopped'')"
proof -
  let ?n = "length (split CHR '','' x)"
  have len: "?n = Suc (count_list x CHR '','')" by (rule length_split)
  have patch: "EC2Patch (PStr x) = Inr (PStr (nat_digits ?n @ '' instances patched''))"
    by (simp add: EC2Patch_def py_str_len)
  have stop: "EC2Stop (PStr x) = Inr (PStr (nat_digits ?n @ '' instances stopped''))"
    by (simp add: EC2Stop_def py_str_len)
  have rejoin: "join '','' (split CHR '','' x) = x"
    using join_split [of "CHR '',''" x] by simp
  have segs: "\<forall>seg \<in> set (split CHR '','' x). CHR '','' \<notin> set seg"
    using split_no_sep by blast
  have nz: "nat_digits ?n \<noteq> ''0''" using len by (simp add: nat_digits_zero)
  have p0: "''0 instances patched'' = ''0'' @ '' instances patched''" by simp
  have s0: "''0 instances stopped'' = ''0'' @ '' instances stopped''" by simp
  have np: "EC2Patch (PStr x) \<noteq> Inr (PStr ''0 instances patched'')"
    unfolding patch p0 using nz by (simp only: sum.inject pyval.inject append_same_eq) simp
  have ns: "EC2Stop (PStr x) \<noteq> Inr (PStr ''0 instances stopped'')"
    unfolding stop s0 using nz by (simp only: sum.inject pyval.inject append_same_eq) simp
  have e1: "EC2Patch (PStr []) = Inr (PStr ''1 instances patched'')"
    by (simp add: EC2Patch_def py_str_def int_str_def nat_digits.simps)
  have e2: "EC2Stop (PStr []) = Inr (PStr ''1 instances stopped'')"
    by (simp add: EC2Stop_def py_str_def int_str_def nat_digits.simps)
  from patch stop rejoin segs len np ns e1 e2 show ?thesis by simp
qed

theorem EC2Patch_EC2Stop_count_witness:
  "split CHR '','' ''i-1,i-2,i-3'' = [''i-1'', ''i-2'', ''i-3'']
   \<and> ''i-2'' \<in> set (split CHR '','' ''i-1,i-2,i-3'')
   \<and> CHR '','' \<notin> set ''i-2''
   \<and> EC2Patch (PStr ''i-1,i-2,i-3'') = Inr (PStr ''3 instances patched'')
   \<and> EC2Stop (PStr ''i-1,i-2,i-3'') = Inr (PStr ''3 instances stopped'')"
proof -
  have sp: "split CHR '','' ''i-1,i-2,i-3'' = [''i-1'', ''i-2'', ''i-3'']" by simp
  have mem: "''i-2'' \<in> set (split CHR '','' ''i-1,i-2,i-3'')" unfolding sp by simp
  have l3: "length (split CHR '','' ''i-1,i-2,i-3'') = 3" by simp
  have d: "nat_digits 3 = ''3''" by (simp add: nat_digits.simps)
  note t = EC2Patch_EC2Stop_count [of "''i-1,i-2,i-3''"]
  from t mem have c: "CHR '','' \<notin> set ''i-2''" by blast
  from t have "EC2Patch (PStr ''i-1,i-2,i-3'')
      = Inr (PStr (nat_digits (length (split CHR '','' ''i-1,i-2,i-3'')) @ '' instances patched''))"
    by blast
  then have p: "EC2Patch (PStr ''i-1,i-2,i-3'') = Inr (PStr ''3 instances patched'')"
    unfolding l3 d by simp
  from t have "EC2Stop (PStr ''i-1,i-2,i-3'')
      = Inr (PStr (nat_digits (length (split CHR '','' ''i-1,i-2,i-3'')) @ '' instances stopped''))"
    by blast
  then have q: "EC2Stop (PStr ''i-1,i-2,i-3'') = Inr (PStr ''3 instances stopped'')"
    unfolding l3 d by simp
  from sp mem c p q show ?thesis by blast
qed

lemma table_ids:
  "map (\<lambda>c. py_getitem c ''id'') customer_table =
     [Inr (PInt 1), Inr (PInt 2), Inr (PInt 3), Inr (PInt 4), Inr (PInt 5),
      Inr (PInt 6), Inr (PInt 7), Inr (PInt 8), Inr (PInt 9), Inr (PInt 10)]"
  by (simp add: customer_table_def customer_def michelle_def py_getitem_def)

lemma table_ids_distinct: "distinct (map (\<lambda>c. py_getitem c ''id'') customer_table)"
  unfolding table_ids by simp

lemma table_ids_int:
  assumes "c \<in> set customer_table"
  shows "\<exists>m. py_getitem c ''id'' = Inr (PInt m) \<and> 1 \<le> m \<and> m \<le> 10"
proof -
  from assms have "py_getitem c ''id'' \<in> set (map (\<lambda>c. py_getitem c ''id'') customer_table)"
    by simp
  then show ?thesis unfolding table_ids by auto
qed

lemma table_has_id:
  assumes "1 \<le> n" "n \<le> 10"
  shows "\<exists>c \<in> set customer_table. py_getitem c ''id'' = Inr (PInt n)"
proof -
  have enum: "{1..10::int} = {1, 2, 3, 4, 5, 6, 7, 8, 9, 10}"
  proof (rule set_eqI)
    fix k :: int
    show "(k \<in> {1..10}) = (k \<in> {1, 2, 3, 4, 5, 6, 7, 8, 9, 10})"
      unfolding atLeastAtMost_iff insert_iff empty_iff by arith
  qed
  from assms have "n \<in> {1..10}" by simp
  then have "n \<in> {1, 2, 3, 4, 5, 6, 7, 8, 9, 10}" unfolding enum .
  then have "Inr (PInt n) \<in> set (map (\<lambda>c. py_getitem c ''id'') customer_table)"
    unfolding table_ids by auto
  then show ?thesis by auto
qed

lemma nat_digits_length: "0 < k \<Longrightarrow> (length (nat_digits n) \<le> k) = (n < 10 ^ k)"
proof (induction n arbitrary: k rule: nat_digits.induct)
  case (1 n)
  show ?case
  proof (cases "n < 10")
    case True
    have "(10::nat) ^ 1 \<le> 10 ^ k" using "1.prems" by (intro power_increasing) simp_all
    with True have "n < 10 ^ k" by simp
    moreover have "length (nat_digits n) = 1" using True by (subst nat_digits.simps) simp
    ultimately show ?thesis using "1.prems" by simp
  next
    case False
    have len: "length (nat_digits n) = Suc (length (nat_digits (n div 10)))"
      using False by (subst nat_digits.simps) simp
    show ?thesis
    proof (cases k)
      case 0
      with "1.prems" show ?thesis by simp
    next
      case (Suc j)
      show ?thesis
      proof (cases "j = 0")
        case True
        have "1 \<le> length (nat_digits (n div 10))"
          using nat_digits_nonempty [of "n div 10"] by (cases "nat_digits (n div 10)") auto
        with len Suc True False show ?thesis by (simp add: nat_digits_nonempty)
      next
        case pos: False
        then have "(length (nat_digits (n div 10)) \<le> j) = (n div 10 < 10 ^ j)"
          using "1.IH" [OF False, of j] by simp
        also have "\<dots> = (n < 10 ^ j * 10)" by (simp add: div_less_iff_less_mult)
        finally show ?thesis using len Suc by (simp add: mult.commute)
      qed
    qed
  qed
qed

lemma max_str_digits_pos: "0 < max_str_digits"
  by (simp add: max_str_digits_def)

lemma renderable_int: "renderable (PInt i) = (\<bar>i\<bar> < 10 ^ max_str_digits)"
proof -
  have "renderable (PInt i) = (nat \<bar>i\<bar> < 10 ^ max_str_digits)"
    by (simp add: nat_digits_length [OF max_str_digits_pos])
  also have "\<dots> = (int (nat \<bar>i\<bar>) < int (10 ^ max_str_digits))" by (simp only: of_nat_less_iff)
  also have "\<dots> = (\<bar>i\<bar> < 10 ^ max_str_digits)" by simp
  finally show ?thesis .
qed

lemma renderable_two_digits: "\<bar>i\<bar> < 100 \<Longrightarrow> renderable (PInt i)"
proof -
  assume "\<bar>i\<bar> < 100"
  then have "nat \<bar>i\<bar> < 10 ^ 2" by simp
  then have "length (nat_digits (nat \<bar>i\<bar>)) \<le> 2"
    using nat_digits_length [of 2 "nat \<bar>i\<bar>"] by simp
  then show ?thesis by (simp add: max_str_digits_def)
qed

lemma py_int_renderable: "py_int ident = Inr n \<Longrightarrow> renderable (PInt n) \<Longrightarrow> renderable ident"
  by (cases ident) (simp_all add: py_int_def)

lemma py_format_ok: "renderable v \<Longrightarrow> py_format v = Inr (py_str v)"
  by (simp add: py_format_def)

lemma py_format_raises: "\<not> renderable v \<Longrightarrow> py_format v = Inl ValueError"
  by (simp add: py_format_def)

lemma table_renderable: "c \<in> set customer_table \<Longrightarrow> renderable c"
proof -
  have "list_all renderable customer_table"
    by (simp add: customer_table_def customer_def michelle_def renderable_two_digits
        del: renderable.simps(3))
  then show "c \<in> set customer_table \<Longrightarrow> renderable c" by (simp add: list_all_iff)
qed

lemma lookup_loop_finds:
  assumes "py_int ident = Inr n" "c \<in> set tbl" "py_getitem c ''id'' = Inr (PInt n)"
    and "\<forall>c' \<in> set tbl. \<exists>m. py_getitem c' ''id'' = Inr (PInt m)"
    and "distinct (map (\<lambda>c. py_getitem c ''id'') tbl)"
    and "renderable ident" "renderable c"
  shows "fst (lookup_loop ident tbl s) = Inr c"
  using assms(2-5)
proof (induction tbl)
  case Nil
  then show ?case by simp
next
  case (Cons a tbl)
  from Cons.prems(3) obtain m where m: "py_getitem a ''id'' = Inr (PInt m)" by auto
  show ?case
  proof (cases "a = c")
    case True
    with Cons.prems(2) assms(1,6,7) show ?thesis by (simp add: py_eq_int_def py_format_ok)
  next
    case False
    with Cons.prems(1) have in_tl: "c \<in> set tbl" by simp
    with Cons.prems(2,4) have "m \<noteq> n" using m by (auto simp: image_iff)
    with m assms(1) have "fst (lookup_loop ident (a # tbl) s) = fst (lookup_loop ident tbl s)"
      by (simp add: py_eq_int_def)
    also have "\<dots> = Inr c" using Cons.IH in_tl Cons.prems(2,3,4) by simp
    finally show ?thesis .
  qed
qed

lemma lookup_loop_none:
  assumes "py_int ident = Inr n"
    and "\<forall>c \<in> set tbl. \<exists>m. py_getitem c ''id'' = Inr (PInt m) \<and> m \<noteq> n"
  shows "lookup_loop ident tbl s = (Inr PNone, s)"
  using assms(2)
proof (induction tbl)
  case Nil
  then show ?case by simp
next
  case (Cons a tbl)
  then obtain m where "py_getitem a ''id'' = Inr (PInt m)" "m \<noteq> n" by auto
  with Cons assms(1) show ?case by (simp add: py_eq_int_def)
qed

lemma lookup_loop_raises:
  assumes "py_int ident = Inl e" "tbl \<noteq> []"
  shows "\<exists>e'. lookup_loop ident tbl s = (Inl e', s)"
proof -
  from assms(2) obtain a rest where "tbl = a # rest" by (cases tbl) auto
  with assms(1) show ?thesis by (simp split: sum.splits)
qed

lemma customer_lookup_fst:
  "renderable ident \<Longrightarrow>
   fst (customer_lookup ident s)
     = fst (lookup_loop ident (customer_table_var s) (print (''search by customer '' @ py_str ident) s))"
  by (simp add: customer_lookup_def Let_def print_def py_format_ok)

lemma customer_lookup_unrenderable:
  "\<not> renderable ident \<Longrightarrow> customer_lookup ident s = (Inl ValueError, s)"
  by (simp add: customer_lookup_def py_format_raises)

lemma michelle_in_table: "michelle \<in> set customer_table"
  by (simp add: customer_table_def)

lemma michelle_id: "py_getitem michelle ''id'' = Inr (PInt 8)"
  by (simp add: michelle_def py_getitem_def)

lemma py_int_str8: "py_int (PStr ''8'') = Inr 8"
  by (simp add: py_int_def int_of_str_def strip_def is_space_def is_digit_def digits_value_def
      max_str_digits_def)

lemma table_unique:
  assumes "c \<in> set customer_table" "c' \<in> set customer_table"
    and "py_getitem c ''id'' = py_getitem c' ''id''"
  shows "c = c'"
  using assms table_ids_distinct by (auto simp: distinct_map inj_on_def)

lemma customer_lookup_table:
  assumes "customer_table_var s = customer_table" "py_int ident = Inr n"
    and "c \<in> set customer_table" "py_getitem c ''id'' = Inr (PInt n)"
  shows "fst (customer_lookup ident s) = Inr c"
proof -
  have ints: "\<forall>c' \<in> set customer_table. \<exists>m. py_getitem c' ''id'' = Inr (PInt m)"
    using table_ids_int by blast
  from table_ids_int [OF assms(3)] assms(4) have "\<bar>n\<bar> < 100" by auto
  then have ri: "renderable ident"
    using py_int_renderable [OF assms(2)] renderable_two_digits by blast
  have rc: "renderable c" using assms(3) by (rule table_renderable)
  have "fst (lookup_loop ident customer_table s') = Inr c" for s'
    by (rule lookup_loop_finds [OF assms(2,3,4) ints table_ids_distinct ri rc])
  then show ?thesis by (simp add: customer_lookup_fst [OF ri] assms(1))
qed

text \<open>
  C1. \<^verbatim>\<open>customer_lookup\<close> of the integer 8, and of the string \<^verbatim>\<open>"8"\<close>, returns the record of
  the table whose id is 8: Michelle Chen, aged 22, postal code 33215, with a list of two
  orders. In general, when \<^verbatim>\<open>int(id)\<close> is \<open>n\<close> and a record of the table has the id \<open>n\<close>,
  the lookup returns that record, and no other record of the table has that id.
\<close>

theorem customer_lookup_returns_record:
  "fst (customer_lookup (PInt 8) session0) = Inr michelle
   \<and> fst (customer_lookup (PStr ''8'') session0) = Inr michelle
   \<and> py_getitem michelle ''id'' = Inr (PInt 8)
   \<and> py_getitem michelle ''first_name'' = Inr (PStr ''Michelle'')
   \<and> py_getitem michelle ''last_name'' = Inr (PStr ''Chen'')
   \<and> py_getitem michelle ''age'' = Inr (PInt 22)
   \<and> py_getitem michelle ''postal_code'' = Inr (PStr ''33215'')
   \<and> (\<exists>o1 o2. py_getitem michelle ''orders'' = Inr (PList [o1, o2]))
   \<and> (customer_table_var s = customer_table \<longrightarrow> py_int ident = Inr n \<longrightarrow>
        c \<in> set customer_table \<longrightarrow> py_getitem c ''id'' = Inr (PInt n) \<longrightarrow>
          fst (customer_lookup ident s) = Inr c
          \<and> (\<forall>c' \<in> set customer_table. py_getitem c' ''id'' = Inr (PInt n) \<longrightarrow> c' = c))
   \<and> (customer_table_var s = customer_table \<longrightarrow> py_int ident = Inr n \<longrightarrow>
        1 \<le> n \<longrightarrow> n \<le> 10 \<longrightarrow>
          (\<exists>r \<in> set customer_table.
             fst (customer_lookup ident s) = Inr r \<and> py_getitem r ''id'' = Inr (PInt n)))"
proof -
  have s0: "customer_table_var session0 = customer_table" by (simp add: session0_def)
  have a: "fst (customer_lookup (PInt 8) session0) = Inr michelle"
    by (rule customer_lookup_table [OF s0 _ michelle_in_table michelle_id]) (simp add: py_int_def)
  have b: "fst (customer_lookup (PStr ''8'') session0) = Inr michelle"
    by (rule customer_lookup_table [OF s0 py_int_str8 michelle_in_table michelle_id])
  have f: "py_getitem michelle ''first_name'' = Inr (PStr ''Michelle'')"
    "py_getitem michelle ''last_name'' = Inr (PStr ''Chen'')"
    "py_getitem michelle ''age'' = Inr (PInt 22)"
    "py_getitem michelle ''postal_code'' = Inr (PStr ''33215'')"
    "\<exists>o1 o2. py_getitem michelle ''orders'' = Inr (PList [o1, o2])"
    by (simp_all add: michelle_def py_getitem_def)
  have g: "customer_table_var s = customer_table \<longrightarrow> py_int ident = Inr n \<longrightarrow>
        c \<in> set customer_table \<longrightarrow> py_getitem c ''id'' = Inr (PInt n) \<longrightarrow>
          fst (customer_lookup ident s) = Inr c
          \<and> (\<forall>c' \<in> set customer_table. py_getitem c' ''id'' = Inr (PInt n) \<longrightarrow> c' = c)"
    using customer_lookup_table [of s ident n c] table_unique [of _ c] by auto
  have h: "customer_table_var s = customer_table \<longrightarrow> py_int ident = Inr n \<longrightarrow>
        1 \<le> n \<longrightarrow> n \<le> 10 \<longrightarrow>
          (\<exists>r \<in> set customer_table.
             fst (customer_lookup ident s) = Inr r \<and> py_getitem r ''id'' = Inr (PInt n))"
    using table_has_id [of n] customer_lookup_table [of s ident n] by blast
  from a b michelle_id f g h show ?thesis by blast
qed

theorem customer_lookup_returns_record_witness:
  "customer_table_var session0 = customer_table \<and> py_int (PStr ''8'') = Inr 8
   \<and> michelle \<in> set customer_table \<and> py_getitem michelle ''id'' = Inr (PInt 8)
   \<and> fst (customer_lookup (PStr ''8'') session0) = Inr michelle"
  using customer_lookup_returns_record [of session0 "PStr ''8''" 8 michelle]
    py_int_str8 michelle_in_table michelle_id
  by (simp add: session0_def)

text \<open>
  C3. The ids of \<^verbatim>\<open>customer_table\<close> are pairwise different: two different records of the
  list, and likewise the records at two different positions, never have the same id.
\<close>

theorem customer_table_ids_unique:
  "distinct (map (\<lambda>c. py_getitem c ''id'') customer_table)
   \<and> (\<forall>r1 \<in> set customer_table. \<forall>r2 \<in> set customer_table.
        r1 \<noteq> r2 \<longrightarrow> py_getitem r1 ''id'' \<noteq> py_getitem r2 ''id'')
   \<and> (\<forall>i j. i < j \<longrightarrow> j < length customer_table \<longrightarrow>
        py_getitem (customer_table ! i) ''id'' \<noteq> py_getitem (customer_table ! j) ''id'')"
proof -
  let ?ids = "map (\<lambda>c. py_getitem c ''id'') customer_table"
  have d: "distinct ?ids" by (rule table_ids_distinct)
  have p: "\<forall>r1 \<in> set customer_table. \<forall>r2 \<in> set customer_table.
        r1 \<noteq> r2 \<longrightarrow> py_getitem r1 ''id'' \<noteq> py_getitem r2 ''id''"
    using table_unique by blast
  have q: "\<forall>i j. i < j \<longrightarrow> j < length customer_table \<longrightarrow>
        py_getitem (customer_table ! i) ''id'' \<noteq> py_getitem (customer_table ! j) ''id''"
  proof (intro allI impI)
    fix i j :: nat
    assume ij: "i < j" "j < length customer_table"
    then have li: "i < length ?ids" and lj: "j < length ?ids" by simp_all
    have "(?ids ! i = ?ids ! j) = (i = j)" by (rule nth_eq_iff_index_eq [OF d li lj])
    with ij show "py_getitem (customer_table ! i) ''id'' \<noteq> py_getitem (customer_table ! j) ''id''"
      by simp
  qed
  from d p q show ?thesis by blast
qed

theorem customer_table_ids_unique_witness:
  "customer 1 ''John'' ''Doe'' 35 ''90210'' \<in> set customer_table \<and> michelle \<in> set customer_table
   \<and> customer 1 ''John'' ''Doe'' 35 ''90210'' \<noteq> michelle
   \<and> py_getitem (customer 1 ''John'' ''Doe'' 35 ''90210'') ''id'' \<noteq> py_getitem michelle ''id''
   \<and> (0::nat) < 7 \<and> 7 < length customer_table
   \<and> py_getitem (customer_table ! 0) ''id'' \<noteq> py_getitem (customer_table ! 7) ''id''"
proof -
  have a: "customer 1 ''John'' ''Doe'' 35 ''90210'' \<in> set customer_table"
    by (simp add: customer_table_def)
  have b: "customer 1 ''John'' ''Doe'' 35 ''90210'' \<noteq> michelle"
    by (simp add: customer_def michelle_def)
  have c: "(7::nat) < length customer_table" by (simp add: customer_table_def)
  from customer_table_ids_unique a b c michelle_in_table show ?thesis by force
qed

lemma lookup_loop_int_only:
  "py_int a = py_int b \<Longrightarrow> renderable a \<Longrightarrow> renderable b \<Longrightarrow>
   fst (lookup_loop a tbl s) = fst (lookup_loop b tbl s')"
  by (induction tbl) (simp_all add: py_format_def split: sum.splits)

lemma customer_lookup_none:
  assumes "customer_table_var s = customer_table" "py_int ident = Inr n" "renderable ident"
    and "\<forall>c \<in> set customer_table. py_getitem c ''id'' \<noteq> Inr (PInt n)"
  shows "customer_lookup ident s = (Inr PNone, print (''search by customer '' @ py_str ident) s)"
proof -
  have "\<forall>c \<in> set customer_table. \<exists>m. py_getitem c ''id'' = Inr (PInt m) \<and> m \<noteq> n"
    using table_ids_int assms(4) by blast
  from lookup_loop_none [OF assms(2) this] assms(1,3) show ?thesis
    by (simp add: customer_lookup_def Let_def print_def py_format_ok)
qed

lemma py_int_str11: "py_int (PStr ''11'') = Inr 11"
  by (simp add: py_int_def int_of_str_def strip_def is_space_def is_digit_def digits_value_def
      max_str_digits_def)

lemma digit_char:
  assumes "d < 10"
  shows "is_digit (''0123456789'' ! d) \<and> of_char (''0123456789'' ! d) - 48 = d
         \<and> ''0123456789'' ! d \<noteq> CHR ''_'' \<and> \<not> is_space (''0123456789'' ! d)
         \<and> ''0123456789'' ! d \<noteq> CHR ''-'' \<and> ''0123456789'' ! d \<noteq> CHR ''+''"
proof -
  from assms consider "d = 0" | "d = 1" | "d = 2" | "d = 3" | "d = 4" | "d = 5" | "d = 6"
    | "d = 7" | "d = 8" | "d = 9" by atomize_elim arith
  then show ?thesis by cases (simp_all add: is_digit_def is_space_def)
qed

lemma nat_digits_plain: "\<forall>c \<in> set (nat_digits n). plain_digit c"
proof (induction n rule: nat_digits.induct)
  case (1 n)
  show ?case
  proof (cases "n < 10")
    case True
    then show ?thesis using digit_char [of n]
      by (subst nat_digits.simps) (simp add: plain_digit_def)
  next
    case False
    have "n mod 10 < 10" by simp
    from digit_char [OF this] 1 False show ?thesis
      by (subst nat_digits.simps) (simp add: plain_digit_def)
  qed
qed

lemma digits_ok_plain: "xs \<noteq> [] \<Longrightarrow> \<forall>c \<in> set xs. plain_digit c \<Longrightarrow> digits_ok xs"
  by (induction xs rule: digits_ok.induct) (auto simp: plain_digit_def)

lemma filter_plain:
  "\<forall>c \<in> set xs. plain_digit c \<Longrightarrow> filter (\<lambda>c. c \<noteq> CHR ''_'') xs = xs"
  by (induction xs) (simp_all add: plain_digit_def)

lemma digits_value_snoc:
  "c \<noteq> CHR ''_'' \<Longrightarrow> digits_value (xs @ [c]) = 10 * digits_value xs + (of_char c - 48)"
  by (simp add: digits_value_def)

lemma digits_value_nat_digits: "digits_value (nat_digits n) = n"
proof (induction n rule: nat_digits.induct)
  case (1 n)
  show ?case
  proof (cases "n < 10")
    case True
    then show ?thesis using digit_char [of n]
      by (subst nat_digits.simps) (simp add: digits_value_def)
  next
    case False
    have "n mod 10 < 10" by simp
    from digit_char [OF this] 1 False show ?thesis
      by (subst nat_digits.simps) (simp add: digits_value_snoc)
  qed
qed

lemma strip_no_space: "\<forall>c \<in> set xs. \<not> is_space c \<Longrightarrow> strip xs = xs"
proof -
  assume a: "\<forall>c \<in> set xs. \<not> is_space c"
  have d: "dropWhile is_space ys = ys" if "\<forall>c \<in> set ys. \<not> is_space c" for ys
    using that by (cases ys) auto
  from a show ?thesis by (simp add: strip_def d)
qed

lemma int_of_str_int_str:
  assumes "renderable (PInt i)"
  shows "int_of_str (int_str i) = Inr i"
proof (cases "i < 0")
  case True
  let ?ds = "nat_digits (nat (- i))"
  have plain: "\<forall>c \<in> set ?ds. plain_digit c" by (rule nat_digits_plain)
  then have "\<forall>c \<in> set (CHR ''-'' # ?ds). \<not> is_space c"
    by (simp add: plain_digit_def is_space_def)
  then have st: "strip (CHR ''-'' # ?ds) = CHR ''-'' # ?ds" by (rule strip_no_space)
  have ok: "digits_ok ?ds" using digits_ok_plain [OF nat_digits_nonempty plain] .
  have lim: "length ?ds \<le> max_str_digits" using assms True by simp
  from True st ok lim show ?thesis
    by (simp add: int_of_str_def int_str_def Let_def digits_value_nat_digits
        filter_plain [OF plain])
next
  case False
  let ?ds = "nat_digits (nat i)"
  have plain: "\<forall>c \<in> set ?ds. plain_digit c" by (rule nat_digits_plain)
  then have st: "strip ?ds = ?ds" by (intro strip_no_space) (simp add: plain_digit_def)
  have ok: "digits_ok ?ds" using digits_ok_plain [OF nat_digits_nonempty plain] .
  have lim: "length ?ds \<le> max_str_digits" using assms False by simp
  have "hd ?ds \<in> set ?ds" using nat_digits_nonempty by simp
  with plain have "hd ?ds \<noteq> CHR ''-'' \<and> hd ?ds \<noteq> CHR ''+''" by (auto simp: plain_digit_def)
  with False st ok lim show ?thesis
    by (simp add: int_of_str_def int_str_def Let_def digits_value_nat_digits
        filter_plain [OF plain])
qed

lemma py_int_str_roundtrip:
  "renderable (PInt i) \<Longrightarrow> py_int (PStr (py_str (PInt i))) = Inr i"
  by (simp add: py_int_def py_str_def int_of_str_int_str del: renderable.simps)

lemma digits_ok_chars: "digits_ok xs \<Longrightarrow> \<forall>c \<in> set xs. is_digit c \<or> c = CHR ''_''"
  by (induction xs rule: digits_ok.induct) (auto split: if_splits)

lemma digits_value_bound:
  "\<forall>c \<in> set xs. is_digit c \<or> c = CHR ''_'' \<Longrightarrow>
   digits_value xs < 10 ^ length (filter (\<lambda>c. c \<noteq> CHR ''_'') xs)"
proof (induction xs rule: rev_induct)
  case Nil
  then show ?case by (simp add: digits_value_def)
next
  case (snoc c xs)
  then have IH: "digits_value xs < 10 ^ length (filter (\<lambda>c. c \<noteq> CHR ''_'') xs)" by simp
  show ?case
  proof (cases "c = CHR ''_''")
    case True
    with IH show ?thesis by (simp add: digits_value_def)
  next
    case False
    with snoc.prems have "is_digit c" by simp
    then have "of_char c - 48 < (10::nat)" by (auto simp: is_digit_def Let_def)
    with IH have "10 * digits_value xs + (of_char c - 48)
        < 10 * 10 ^ length (filter (\<lambda>c. c \<noteq> CHR ''_'') xs)"
      by arith
    with False show ?thesis by (simp add: digits_value_snoc)
  qed
qed

lemma int_of_str_renderable:
  assumes "int_of_str sid = Inr n"
  shows "renderable (PInt n)"
proof -
  let ?t = "strip sid"
  let ?signed = "?t \<noteq> [] \<and> (hd ?t = CHR ''-'' \<or> hd ?t = CHR ''+'')"
  let ?body = "if ?signed then tl ?t else ?t"
  let ?k = "length (filter (\<lambda>c. c \<noteq> CHR ''_'') ?body)"
  from assms have ok: "digits_ok ?body" and lim: "?k \<le> max_str_digits"
    and val: "\<bar>n\<bar> = int (digits_value ?body)"
    by (auto simp: int_of_str_def Let_def split: if_splits)
  have "digits_value ?body < 10 ^ ?k"
    by (rule digits_value_bound [OF digits_ok_chars [OF ok]])
  also have "(10::nat) ^ ?k \<le> 10 ^ max_str_digits"
    using lim by (intro power_increasing) simp_all
  finally have "int (digits_value ?body) < int (10 ^ max_str_digits)"
    by (simp only: of_nat_less_iff)
  with val show ?thesis by (simp add: renderable_int del: renderable.simps)
qed

lemma huge_id_large: "10 < huge_id"
proof -
  have "1 < max_str_digits" by (simp add: max_str_digits_def)
  then have "(10::int) ^ 1 < 10 ^ max_str_digits" by (intro power_strict_increasing) simp_all
  then show ?thesis by (simp add: huge_id_def)
qed

lemma huge_id_unrenderable: "\<not> renderable (PInt huge_id)"
  by (simp add: renderable_int huge_id_def del: renderable.simps)

text \<open>
  C10, as stated, fails: the integer \<open>10 ^ 4300\<close> is its own \<^verbatim>\<open>int\<close> and is the id of no
  record, but \<^verbatim>\<open>customer_lookup\<close> raises a \<^verbatim>\<open>ValueError\<close> for it, in the f-string of its
  first \<^verbatim>\<open>print\<close>, and returns nothing.
\<close>

theorem customer_lookup_huge_id_raises:
  "py_int (PInt huge_id) = Inr huge_id
   \<and> 10 < huge_id
   \<and> customer_lookup (PInt huge_id) session0 = (Inl ValueError, session0)"
  using huge_id_large customer_lookup_unrenderable [OF huge_id_unrenderable, of session0]
  by (simp add: py_int_def)

text \<open>
  C10, amended. When \<^verbatim>\<open>int(id)\<close> is an integer \<open>n\<close> that no record of the table has as its
  id, as every \<open>n\<close> outside 1..10, and \<^verbatim>\<open>id\<close> can be written by the first \<^verbatim>\<open>print\<close>,
  \<^verbatim>\<open>customer_lookup\<close> returns \<^verbatim>\<open>None\<close>, having printed only its search line. Every string
  and boolean can be written, and an integer exactly when it has at most 4300 digits; for an
  id that cannot be written the lookup raises a \<^verbatim>\<open>ValueError\<close> and prints nothing. A string
  id goes through \<^verbatim>\<open>int\<close>, and the lookup gives for it what it gives for the integer it
  denotes, so for the decimal string of an integer that can be written what it gives for
  that integer; the string \<^verbatim>\<open>"11"\<close> gives \<^verbatim>\<open>None\<close>.
\<close>

theorem customer_lookup_absent_none:
  "(customer_table_var s = customer_table \<longrightarrow> py_int ident = Inr n \<longrightarrow> renderable ident \<longrightarrow>
      (\<forall>c \<in> set customer_table. py_getitem c ''id'' \<noteq> Inr (PInt n)) \<longrightarrow>
      customer_lookup ident s = (Inr PNone, print (''search by customer '' @ py_str ident) s))
   \<and> (customer_table_var s = customer_table \<longrightarrow> py_int ident = Inr n \<longrightarrow> renderable ident \<longrightarrow>
      (n < 1 \<or> 10 < n) \<longrightarrow> fst (customer_lookup ident s) = Inr PNone)
   \<and> renderable (PStr sid) \<and> renderable (PBool b)
   \<and> renderable (PInt n) = (\<bar>n\<bar> < 10 ^ max_str_digits)
   \<and> (\<not> renderable ident \<longrightarrow> customer_lookup ident s = (Inl ValueError, s))
   \<and> py_int (PStr sid) = int_of_str sid
   \<and> (int_of_str sid = Inr n \<longrightarrow>
        fst (customer_lookup (PStr sid) s) = fst (customer_lookup (PInt n) s))
   \<and> (renderable (PInt n) \<longrightarrow>
        fst (customer_lookup (PStr (py_str (PInt n))) s) = fst (customer_lookup (PInt n) s))
   \<and> fst (customer_lookup (PStr ''11'') session0) = Inr PNone"
proof -
  have pn: "py_int (PInt n) = Inr n" by (simp add: py_int_def)
  have rs: "renderable (PStr x)" for x by simp
  have same: "fst (customer_lookup (PStr x) s) = fst (customer_lookup (PInt n) s)"
    if "py_int (PStr x) = Inr n" "renderable (PInt n)" for x
  proof -
    from that(1) pn have "py_int (PStr x) = py_int (PInt n)" by simp
    from lookup_loop_int_only [OF this rs that(2)] show ?thesis
      by (simp only: customer_lookup_fst [OF rs] customer_lookup_fst [OF that(2)])
  qed
  have a: "customer_table_var s = customer_table \<longrightarrow> py_int ident = Inr n \<longrightarrow> renderable ident \<longrightarrow>
      (\<forall>c \<in> set customer_table. py_getitem c ''id'' \<noteq> Inr (PInt n)) \<longrightarrow>
      customer_lookup ident s = (Inr PNone, print (''search by customer '' @ py_str ident) s)"
    using customer_lookup_none by blast
  have out: "\<forall>c \<in> set customer_table. py_getitem c ''id'' \<noteq> Inr (PInt m)"
    if "m < 1 \<or> 10 < m" for m
    using table_ids_int that by fastforce
  have b: "customer_table_var s = customer_table \<longrightarrow> py_int ident = Inr n \<longrightarrow> renderable ident \<longrightarrow>
      (n < 1 \<or> 10 < n) \<longrightarrow> fst (customer_lookup ident s) = Inr PNone"
    using customer_lookup_none [of s ident n] out [of n] by simp
  have r0: "renderable (PStr sid) \<and> renderable (PBool b)" by simp
  have r1: "renderable (PInt n) = (\<bar>n\<bar> < 10 ^ max_str_digits)" by (rule renderable_int)
  have u: "\<not> renderable ident \<longrightarrow> customer_lookup ident s = (Inl ValueError, s)"
    using customer_lookup_unrenderable by blast
  have c: "py_int (PStr sid) = int_of_str sid" by (simp add: py_int_def)
  have d: "int_of_str sid = Inr n \<longrightarrow>
        fst (customer_lookup (PStr sid) s) = fst (customer_lookup (PInt n) s)"
    using same [of sid] int_of_str_renderable [of sid n] c by simp
  have r: "renderable (PInt n) \<longrightarrow>
        fst (customer_lookup (PStr (py_str (PInt n))) s) = fst (customer_lookup (PInt n) s)"
    using same [of "py_str (PInt n)"] py_int_str_roundtrip [of n] by blast
  have e: "fst (customer_lookup (PStr ''11'') session0) = Inr PNone"
    using customer_lookup_none [of session0 "PStr ''11''" 11] out [of 11] py_int_str11
    by (simp add: session0_def)
  from a b r0 r1 u c d r e show ?thesis by blast
qed

theorem customer_lookup_absent_none_witness:
  "customer_table_var session0 = customer_table \<and> py_int (PStr ''11'') = Inr 11
   \<and> renderable (PStr ''11'')
   \<and> ((11::int) < 1 \<or> (10::int) < 11)
   \<and> int_of_str ''11'' = Inr 11
   \<and> fst (customer_lookup (PStr ''11'') session0) = Inr PNone
   \<and> fst (customer_lookup (PStr ''11'') session0) = fst (customer_lookup (PInt 11) session0)
   \<and> \<not> renderable (PInt huge_id)
   \<and> customer_lookup (PInt huge_id) session0 = (Inl ValueError, session0)"
proof -
  have s0: "customer_table_var session0 = customer_table" by (simp add: session0_def)
  have i: "int_of_str ''11'' = Inr 11" using py_int_str11 by (simp add: py_int_def)
  have rs: "renderable (PStr ''11'')" by simp
  note t = customer_lookup_absent_none [of session0 "PStr ''11''" 11 "''11''"]
  from t s0 py_int_str11 rs
  have n: "fst (customer_lookup (PStr ''11'') session0) = Inr PNone" by blast
  from t i have
    e: "fst (customer_lookup (PStr ''11'') session0) = fst (customer_lookup (PInt 11) session0)"
    by blast
  from customer_lookup_absent_none [of session0 "PInt huge_id"] huge_id_unrenderable
  have h: "customer_lookup (PInt huge_id) session0 = (Inl ValueError, session0)" by blast
  from s0 py_int_str11 rs i n e huge_id_unrenderable h show ?thesis by simp
qed


lemma record_change_value:
  assumes "loads (butlast (tl t)) = Inr (PDict kvs)"
    and "map_of kvs ''instance'' = Some vi" "map_of kvs ''changeType'' = Some vc"
  shows "record_change loads (PStr t) s =
           (Inr (PStr (''instance '' @ py_str vi @ ''. ACTION: '' @ py_str vc
                       @ '' recorded in CMDB'')),
            print (''*'' @ t @ ''*'') s)"
  using assms
  by (simp add: record_change_def Let_def slice_1_m1_def json_loads_def py_getitem_def
      py_format_def py_str_def)




















text \<open>
  C6. When the input string without its first and last character decodes to a JSON object
  whose keys \<^verbatim>\<open>'instance'\<close> and \<^verbatim>\<open>'changeType'\<close> hold \<open>vi\<close> and \<open>vc\<close>, \<^verbatim>\<open>record_change\<close>
  returns exactly \<^verbatim>\<open>"instance {vi}. ACTION: {vc} recorded in CMDB"\<close>, having printed its
  input between two stars.
\<close>

theorem record_change_formats:
  assumes "loads (butlast (tl t)) = Inr (PDict kvs)"
    and "map_of kvs ''instance'' = Some vi" "map_of kvs ''changeType'' = Some vc"
  shows "record_change loads (PStr t) s =
           (Inr (PStr (''instance '' @ py_str vi @ ''. ACTION: '' @ py_str vc
                       @ '' recorded in CMDB'')),
            print (''*'' @ t @ ''*'') s)"
  using assms by (rule record_change_value)

lemma unquote: "butlast (tl ([CHR 0x27] @ d @ [CHR 0x27])) = d"
  by simp

lemma decode_patch:
  "decode_examples (change_doc ''PATCH'') =
     Inr (PDict [(''instance'', PStr ''i-00000000000''), (''changeType'', PStr ''PATCH'')])"
  by (simp add: decode_examples_def)

lemma decode_stop:
  "decode_examples (change_doc ''STOP'') =
     Inr (PDict [(''instance'', PStr ''i-00000000000''), (''changeType'', PStr ''STOP'')])"
  by (simp add: decode_examples_def change_doc_def)

theorem record_change_formats_witness:
  "decode_examples (butlast (tl ([CHR 0x27] @ change_doc ''PATCH'' @ [CHR 0x27]))) =
     Inr (PDict [(''instance'', PStr ''i-00000000000''), (''changeType'', PStr ''PATCH'')])
   \<and> map_of [(''instance'', PStr ''i-00000000000''), (''changeType'', PStr ''PATCH'')] ''instance''
       = Some (PStr ''i-00000000000'')
   \<and> map_of [(''instance'', PStr ''i-00000000000''), (''changeType'', PStr ''PATCH'')] ''changeType''
       = Some (PStr ''PATCH'')
   \<and> fst (record_change decode_examples (quoted (change_doc ''PATCH'')) session0) =
       Inr (PStr ''instance i-00000000000. ACTION: PATCH recorded in CMDB'')"
proof -
  have d: "decode_examples (butlast (tl ([CHR 0x27] @ change_doc ''PATCH'' @ [CHR 0x27]))) =
     Inr (PDict [(''instance'', PStr ''i-00000000000''), (''changeType'', PStr ''PATCH'')])"
    unfolding unquote by (rule decode_patch)
  have i: "map_of [(''instance'', PStr ''i-00000000000''), (''changeType'', PStr ''PATCH'')] ''instance''
       = Some (PStr ''i-00000000000'')" by simp
  have c: "map_of [(''instance'', PStr ''i-00000000000''), (''changeType'', PStr ''PATCH'')] ''changeType''
       = Some (PStr ''PATCH'')" by simp
  from record_change_formats [of decode_examples "[CHR 0x27] @ change_doc ''PATCH'' @ [CHR 0x27]"
      "[(''instance'', PStr ''i-00000000000''), (''changeType'', PStr ''PATCH'')]"
      "PStr ''i-00000000000''" "PStr ''PATCH''" session0, OF d i c]
  have "fst (record_change decode_examples (quoted (change_doc ''PATCH'')) session0) =
       Inr (PStr ''instance i-00000000000. ACTION: PATCH recorded in CMDB'')"
    by (simp add: quoted_def py_str_def)
  with d i c show ?thesis by blast
qed

lemma extends_refl: "extends_output s s"
proof -
  have "s = s\<lparr>stdout := stdout s @ []\<rparr>" by simp
  then show ?thesis unfolding extends_output_def by (rule exI)
qed

lemma extends_print: "extends_output s (print line s)"
  unfolding extends_output_def print_def by (rule exI [of _ "[line]"]) simp

lemma extends_trans:
  assumes "extends_output s s'" "extends_output s' s''"
  shows "extends_output s s''"
proof -
  from assms(1) obtain o1 where a: "s' = s\<lparr>stdout := stdout s @ o1\<rparr>"
    unfolding extends_output_def by blast
  from assms(2) obtain o2 where b: "s'' = s'\<lparr>stdout := stdout s' @ o2\<rparr>"
    unfolding extends_output_def by blast
  from a b have "s'' = s\<lparr>stdout := stdout s @ (o1 @ o2)\<rparr>" by simp
  then show ?thesis unfolding extends_output_def by (rule exI)
qed

lemma lookup_loop_extends: "extends_output s (snd (lookup_loop ident tbl s))"
  by (induction tbl) (simp_all add: extends_refl extends_print split: sum.splits)

lemma customer_lookup_extends: "extends_output s (snd (customer_lookup ident s))"
proof (cases "py_format ident")
  case (Inl e)
  then show ?thesis by (simp add: customer_lookup_def extends_refl)
next
  case (Inr a)
  let ?s1 = "print (''search by customer '' @ a) s"
  have "extends_output s ?s1" by (rule extends_print)
  moreover have "extends_output ?s1 (snd (lookup_loop ident (customer_table_var ?s1) ?s1))"
    by (rule lookup_loop_extends)
  ultimately have "extends_output s (snd (lookup_loop ident (customer_table_var ?s1) ?s1))"
    by (rule extends_trans)
  with Inr show ?thesis by (simp add: customer_lookup_def Let_def)
qed

lemma record_change_extends: "extends_output s (snd (record_change loads x s))"
  by (simp add: record_change_def Let_def extends_refl extends_print split: sum.splits)

lemma customer_lookup_appends:
  "\<exists>out. snd (customer_lookup ident s) = s\<lparr>stdout := stdout s @ out\<rparr>"
  using customer_lookup_extends [of s ident] unfolding extends_output_def .

lemma pure_tool_same: "snd (pure_tool f x s) = s"
  by (simp add: pure_tool_def)

lemma custom_tools_append:
  assumes "t \<in> set (custom_tools loads)"
  shows "\<exists>out. snd (func t x s) = s\<lparr>stdout := stdout s @ out\<rparr>"
proof -
  from assms consider "func t = pure_tool EC2Search" | "func t = pure_tool EC2Patch"
    | "func t = pure_tool EC2Stop" | "func t = record_change loads" | "func t = customer_lookup"
    by (auto simp: custom_tools_def)
  then have "extends_output s (snd (func t x s))"
    by cases (simp_all add: pure_tool_same extends_refl record_change_extends
        customer_lookup_extends)
  then show ?thesis unfolding extends_output_def .
qed

text \<open>
  C5. No tool of the notebook changes \<^verbatim>\<open>customer_table\<close>: after \<^verbatim>\<open>customer_lookup\<close> with any
  id, and after any of the five custom tools with any input, the table variable holds what
  it held before, and the session differs from the one before only by lines added to the
  output.
\<close>

theorem tools_leave_customer_table:
  "customer_table_var (snd (customer_lookup ident s)) = customer_table_var s
   \<and> (\<exists>out. snd (customer_lookup ident s) = s\<lparr>stdout := stdout s @ out\<rparr>)
   \<and> (\<forall>t \<in> set (custom_tools loads).
        customer_table_var (snd (func t x s)) = customer_table_var s
        \<and> (\<exists>out. snd (func t x s) = s\<lparr>stdout := stdout s @ out\<rparr>))"
proof -
  have frame: "customer_table_var s' = customer_table_var s"
    if "\<exists>out. s' = s\<lparr>stdout := stdout s @ out\<rparr>" for s'
    using that by auto
  have a: "\<exists>out. snd (customer_lookup ident s) = s\<lparr>stdout := stdout s @ out\<rparr>"
    by (rule customer_lookup_appends)
  have b: "\<forall>t \<in> set (custom_tools loads).
        customer_table_var (snd (func t x s)) = customer_table_var s
        \<and> (\<exists>out. snd (func t x s) = s\<lparr>stdout := stdout s @ out\<rparr>)"
    using custom_tools_append frame by blast
  from a b frame [OF a] show ?thesis by blast
qed

theorem tools_leave_customer_table_witness:
  "custom_tools decode_examples ! 4 \<in> set (custom_tools decode_examples)
   \<and> func (custom_tools decode_examples ! 4) = customer_lookup
   \<and> customer_table_var (snd (customer_lookup (PStr ''8'') session0)) = customer_table
   \<and> customer_table_var (snd (func (custom_tools decode_examples ! 3) (quoted (change_doc ''PATCH'')) session0))
       = customer_table"
proof -
  have m4: "custom_tools decode_examples ! 4 \<in> set (custom_tools decode_examples)"
    and m3: "custom_tools decode_examples ! 3 \<in> set (custom_tools decode_examples)"
    by (simp_all add: custom_tools_def)
  have f4: "func (custom_tools decode_examples ! 4) = customer_lookup"
    by (simp add: custom_tools_def)
  have s0: "customer_table_var session0 = customer_table" by (simp add: session0_def)
  from tools_leave_customer_table [of "PStr ''8''" session0 decode_examples "PStr ''8''"] m4 f4 s0
  have a: "customer_table_var (snd (customer_lookup (PStr ''8'') session0)) = customer_table"
    by simp
  from tools_leave_customer_table [of "PStr ''8''" session0 decode_examples
      "quoted (change_doc ''PATCH'')"] m3 s0
  have b: "customer_table_var (snd (func (custom_tools decode_examples ! 3)
      (quoted (change_doc ''PATCH'')) session0)) = customer_table"
    by simp
  from m4 f4 a b show ?thesis by blast
qed

text \<open>
  C8. Every record of \<^verbatim>\<open>customer_table\<close> has an integer \<^verbatim>\<open>id\<close> and the keys
  \<^verbatim>\<open>first_name\<close>, \<^verbatim>\<open>last_name\<close>, \<^verbatim>\<open>age\<close> and \<^verbatim>\<open>postal_code\<close>. The key \<^verbatim>\<open>orders\<close> is on
  exactly one record, the one with id 8, where it is a list of records that each have
  \<^verbatim>\<open>order_id\<close> and \<^verbatim>\<open>description\<close>.
\<close>

theorem customer_table_fields:
  "(\<forall>c \<in> set customer_table.
      (\<exists>i. py_getitem c ''id'' = Inr (PInt i))
      \<and> has_key c ''first_name'' \<and> has_key c ''last_name''
      \<and> has_key c ''age'' \<and> has_key c ''postal_code'')
   \<and> filter (\<lambda>c. has_key c ''orders'') customer_table = [michelle]
   \<and> py_getitem michelle ''id'' = Inr (PInt 8)
   \<and> (\<exists>os. py_getitem michelle ''orders'' = Inr (PList os)
        \<and> (\<forall>ord \<in> set os. has_key ord ''order_id'' \<and> has_key ord ''description''))"
proof -
  have a: "\<forall>c \<in> set customer_table.
      (\<exists>i. py_getitem c ''id'' = Inr (PInt i))
      \<and> has_key c ''first_name'' \<and> has_key c ''last_name''
      \<and> has_key c ''age'' \<and> has_key c ''postal_code''"
    by (simp add: customer_table_def customer_def michelle_def py_getitem_def has_key_def)
  have b: "filter (\<lambda>c. has_key c ''orders'') customer_table = [michelle]"
    by (simp add: customer_table_def customer_def has_key_def)
       (simp add: michelle_def)
  have c: "py_getitem michelle ''id'' = Inr (PInt 8)" by (rule michelle_id)
  have d: "\<exists>os. py_getitem michelle ''orders'' = Inr (PList os)
        \<and> (\<forall>ord \<in> set os. has_key ord ''order_id'' \<and> has_key ord ''description'')"
    by (simp add: michelle_def py_getitem_def has_key_def)
  from a b c d show ?thesis by blast
qed

theorem customer_table_fields_witness:
  "michelle \<in> set customer_table
   \<and> (\<exists>i. py_getitem michelle ''id'' = Inr (PInt i))
   \<and> has_key michelle ''first_name'' \<and> has_key michelle ''last_name''
   \<and> has_key michelle ''age'' \<and> has_key michelle ''postal_code''
   \<and> has_key michelle ''orders''
   \<and> \<not> has_key (customer 1 ''John'' ''Doe'' 35 ''90210'') ''orders''"
proof -
  have o: "has_key michelle ''orders''" by (simp add: michelle_def has_key_def)
  have n: "\<not> has_key (customer 1 ''John'' ''Doe'' 35 ''90210'') ''orders''"
    by (simp add: customer_def has_key_def)
  from customer_table_fields michelle_in_table o n show ?thesis by blast
qed

lemma split_a: "split CHR '','' ''a'' = [''a'']"
  by simp

lemma split_ab: "split CHR '','' ''a,b'' = [''a'', ''b'']"
  by simp

lemma EC2Patch_a: "EC2Patch (PStr ''a'') = Inr (PStr ''1 instances patched'')"
  by (simp add: EC2Patch_def py_str_def int_str_def nat_digits.simps)

lemma EC2Patch_ab: "EC2Patch (PStr ''a,b'') = Inr (PStr ''2 instances patched'')"
  by (simp add: EC2Patch_def py_str_def int_str_def nat_digits.simps)

lemma EC2Stop_a: "EC2Stop (PStr ''a'') = Inr (PStr ''1 instances stopped'')"
  by (simp add: EC2Stop_def py_str_def int_str_def nat_digits.simps)

lemma EC2Stop_ab: "EC2Stop (PStr ''a,b'') = Inr (PStr ''2 instances stopped'')"
  by (simp add: EC2Stop_def py_str_def int_str_def nat_digits.simps)

lemma lookup_1: "fst (customer_lookup (PInt 1) session0) = Inr (customer 1 ''John'' ''Doe'' 35 ''90210'')"
  by (rule customer_lookup_table)
     (simp_all add: session0_def py_int_def customer_table_def customer_def py_getitem_def)

lemma lookup_2: "fst (customer_lookup (PInt 2) session0) = Inr (customer 2 ''Jane'' ''Smith'' 27 ''12345'')"
  by (rule customer_lookup_table)
     (simp_all add: session0_def py_int_def customer_table_def customer_def py_getitem_def)

lemma change_patch:
  "fst (record_change decode_examples (quoted (change_doc ''PATCH'')) session0) =
     Inr (PStr ''instance i-00000000000. ACTION: PATCH recorded in CMDB'')"
  using record_change_value [of decode_examples "[CHR 0x27] @ change_doc ''PATCH'' @ [CHR 0x27]"
      "[(''instance'', PStr ''i-00000000000''), (''changeType'', PStr ''PATCH'')]"
      "PStr ''i-00000000000''" "PStr ''PATCH''" session0]
  unfolding unquote by (simp add: decode_patch quoted_def py_str_def)

lemma change_stop:
  "fst (record_change decode_examples (quoted (change_doc ''STOP'')) session0) =
     Inr (PStr ''instance i-00000000000. ACTION: STOP recorded in CMDB'')"
  using record_change_value [of decode_examples "[CHR 0x27] @ change_doc ''STOP'' @ [CHR 0x27]"
      "[(''instance'', PStr ''i-00000000000''), (''changeType'', PStr ''STOP'')]"
      "PStr ''i-00000000000''" "PStr ''STOP''" session0]
  unfolding unquote by (simp add: decode_stop quoted_def py_str_def)

text \<open>
  C2, as stated, fails: four of the five custom tools return different values for different
  inputs on which they are defined.
\<close>

theorem tools_depend_on_input:
  "EC2Patch (PStr ''a'') = Inr (PStr ''1 instances patched'')
   \<and> EC2Patch (PStr ''a,b'') = Inr (PStr ''2 instances patched'')
   \<and> EC2Patch (PStr ''a'') \<noteq> EC2Patch (PStr ''a,b'')
   \<and> EC2Stop (PStr ''a'') = Inr (PStr ''1 instances stopped'')
   \<and> EC2Stop (PStr ''a,b'') = Inr (PStr ''2 instances stopped'')
   \<and> EC2Stop (PStr ''a'') \<noteq> EC2Stop (PStr ''a,b'')
   \<and> fst (record_change decode_examples (quoted (change_doc ''PATCH'')) session0) =
       Inr (PStr ''instance i-00000000000. ACTION: PATCH recorded in CMDB'')
   \<and> fst (record_change decode_examples (quoted (change_doc ''STOP'')) session0) =
       Inr (PStr ''instance i-00000000000. ACTION: STOP recorded in CMDB'')
   \<and> fst (record_change decode_examples (quoted (change_doc ''PATCH'')) session0)
       \<noteq> fst (record_change decode_examples (quoted (change_doc ''STOP'')) session0)
   \<and> fst (customer_lookup (PInt 1) session0) = Inr (customer 1 ''John'' ''Doe'' 35 ''90210'')
   \<and> fst (customer_lookup (PInt 2) session0) = Inr (customer 2 ''Jane'' ''Smith'' 27 ''12345'')
   \<and> fst (customer_lookup (PInt 1) session0) \<noteq> fst (customer_lookup (PInt 2) session0)"
proof -
  have p: "EC2Patch (PStr ''a'') \<noteq> EC2Patch (PStr ''a,b'')"
    unfolding EC2Patch_a EC2Patch_ab by simp
  have s: "EC2Stop (PStr ''a'') \<noteq> EC2Stop (PStr ''a,b'')"
    unfolding EC2Stop_a EC2Stop_ab by simp
  have r: "fst (record_change decode_examples (quoted (change_doc ''PATCH'')) session0)
       \<noteq> fst (record_change decode_examples (quoted (change_doc ''STOP'')) session0)"
    unfolding change_patch change_stop by simp
  have l: "fst (customer_lookup (PInt 1) session0) \<noteq> fst (customer_lookup (PInt 2) session0)"
    unfolding lookup_1 lookup_2 by (simp add: customer_def)
  from EC2Patch_a EC2Patch_ab p EC2Stop_a EC2Stop_ab s change_patch change_stop r
    lookup_1 lookup_2 l
  show ?thesis by simp
qed

text \<open>
  C2, amended. Of the custom tools only \<^verbatim>\<open>EC2Search\<close> returns a fixed string whatever its
  input. \<^verbatim>\<open>EC2Patch\<close> and \<^verbatim>\<open>EC2Stop\<close> depend on a string input through the number of its
  comma-separated segments alone: two strings with the same number of segments get the same
  answer.
\<close>

theorem EC2Search_fixed:
  "EC2Search x = EC2Search y
   \<and> EC2Search x = Inr (PStr ''['i-00000000000','i-00000000001','i-00000000002']'')
   \<and> (length (split CHR '','' a) = length (split CHR '','' b) \<longrightarrow>
        EC2Patch (PStr a) = EC2Patch (PStr b) \<and> EC2Stop (PStr a) = EC2Stop (PStr b))"
  by (simp add: EC2Search_def EC2Patch_def EC2Stop_def)

theorem EC2Search_fixed_witness:
  "length (split CHR '','' ''a,b'') = length (split CHR '','' ''i-1,i-2'')
   \<and> EC2Patch (PStr ''a,b'') = EC2Patch (PStr ''i-1,i-2'')
   \<and> EC2Stop (PStr ''a,b'') = EC2Stop (PStr ''i-1,i-2'')
   \<and> EC2Search (PStr ''delete'') = EC2Search (PInt 0)"
proof -
  have l: "length (split CHR '','' ''a,b'') = length (split CHR '','' ''i-1,i-2'')" by simp
  from EC2Search_fixed [of "PStr ''delete''" "PInt 0" "''a,b''" "''i-1,i-2''"] l
  show ?thesis by blast
qed

text \<open>
  C7, as stated, fails: the notebook constructs an agent five times and runs one six times,
  not three times; the second and third run have the same prompt, and the third and fourth
  run use the same agent with the same tools.
\<close>

theorem notebook_not_three_repetitions:
  "length (filter is_constructor (concat notebook)) = 5
   \<and> length (filter is_constructor (concat notebook)) \<noteq> 3
   \<and> length notebook_runs = 6
   \<and> length notebook_runs \<noteq> 3
   \<and> prompt (notebook_runs ! 1) = prompt (notebook_runs ! 2)
   \<and> used_tools (notebook_runs ! 2) = used_tools (notebook_runs ! 3)"
  by (simp add: notebook_runs_def run_all_def notebook_def kernel0_def is_constructor_def)

text \<open>
  C7, amended. In the transcribed script no statement reads an unbound variable. The
  notebook assigns its tool list afresh three times
  (\<^verbatim>\<open>load_tools\<close> twice, a literal list once), but it builds a model client five times,
  constructs an agent five times (\<^verbatim>\<open>initialize_agent\<close> four times, \<^verbatim>\<open>PlanAndExecute\<close> once)
  and runs an agent six times; the six runs use five different prompts, and the result is
  printed after four of them.
\<close>

theorem notebook_pattern_counts:
  "run_all (concat notebook) kernel0 \<noteq> None
   \<and> length (filter is_tools_assign (concat notebook)) = 3
   \<and> length (filter is_client (concat notebook)) = 5
   \<and> length (filter (\<lambda>st. st = InitializeAgent) (concat notebook)) = 4
   \<and> length (filter (\<lambda>st. st = PlanAndExecute) (concat notebook)) = 1
   \<and> length (filter is_constructor (concat notebook)) = 5
   \<and> length (filter is_run (concat notebook)) = 6
   \<and> length notebook_runs = 6
   \<and> length (remdups (map prompt notebook_runs)) = 5
   \<and> length (filter (\<lambda>st. st = PrintResult) (concat notebook)) = 4"
proof -
  have k: "run_all (concat notebook) kernel0 \<noteq> None"
    by (simp add: run_all_def notebook_def kernel0_def)
  have c: "length (filter is_tools_assign (concat notebook)) = 3"
    "length (filter is_client (concat notebook)) = 5"
    "length (filter (\<lambda>st. st = InitializeAgent) (concat notebook)) = 4"
    "length (filter (\<lambda>st. st = PlanAndExecute) (concat notebook)) = 1"
    "length (filter is_constructor (concat notebook)) = 5"
    "length (filter is_run (concat notebook)) = 6"
    "length (filter (\<lambda>st. st = PrintResult) (concat notebook)) = 4"
    by (simp_all add: notebook_def is_constructor_def is_run_def is_tools_assign_def
        is_client_def)
  have r: "length notebook_runs = 6"
    by (simp add: notebook_runs_def run_all_def notebook_def kernel0_def)
  have p: "length (remdups (map prompt notebook_runs)) = 5"
    by (simp add: notebook_runs_def run_all_def notebook_def kernel0_def
        question_sagemaker_def question_tag_def question_customer_def question_pae_def)
  from k c r p show ?thesis by simp
qed

end
